theory Spec2Isabelle
  imports Main "HOL-Library.Sublist"
begin

section \<open>Values of the host language\<close>

text \<open>
  The command \<open>generate\<close> of \<open>src/cli/commands.ts\<close> loads a user module, looks at the
  value it exports with \<open>typeof\<close> and truthiness tests, interpolates it into messages
  and hands it to \<open>JSON.stringify\<close>. The values it can meet are embedded as a datatype.

  Numbers are the integer-valued numbers of magnitude below \<open>10^21\<close>, which print in
  plain decimal digits, together with \<open>NaN\<close> and the two infinities; fractions and the
  negative zero need floating point and are left out. Strings are byte strings, the
  UTF-8 form in which the output file is written. An object is a plain one: the list
  of its own enumerable data properties in the order the engine enumerates them, with
  nothing of its own making behind \<open>toString\<close>, \<open>toJSON\<close> or \<open>then\<close>. An array has its
  elements and a function has its source text and what a call with no arguments
  does; neither carries further properties.
\<close>

datatype jsnum = Finite int | NaN | PosInfinity | NegInfinity

datatype call =
    Returns jsval
  | Throws string
  | Resolves jsval
  | Rejects string
  | NeverSettles
and jsval =
    JUndefined
  | JNull
  | JBool bool
  | JNum jsnum
  | JStr string
  | JArr "jsval list"
  | JObj "(string \<times> jsval) list"
  | JFun string call

text \<open>\<open>typeof v\<close>.\<close>

fun typeof :: "jsval \<Rightarrow> string" where
  "typeof JUndefined = ''undefined''"
| "typeof JNull = ''object''"
| "typeof (JBool b) = ''boolean''"
| "typeof (JNum n) = ''number''"
| "typeof (JStr s) = ''string''"
| "typeof (JArr xs) = ''object''"
| "typeof (JObj kvs) = ''object''"
| "typeof (JFun src c) = ''function''"

text \<open>Truthiness, as tested by \<open>!v\<close> and \<open>v ? a : b\<close>.\<close>

fun truthy :: "jsval \<Rightarrow> bool" where
  "truthy JUndefined = False"
| "truthy JNull = False"
| "truthy (JBool b) = b"
| "truthy (JNum (Finite n)) = (n \<noteq> 0)"
| "truthy (JNum NaN) = False"
| "truthy (JNum PosInfinity) = True"
| "truthy (JNum NegInfinity) = True"
| "truthy (JStr s) = (s \<noteq> [])"
| "truthy (JArr xs) = True"
| "truthy (JObj kvs) = True"
| "truthy (JFun src c) = True"

text \<open>Decimal digits of a natural number, and the printed form of a number.\<close>

definition digit_char :: "nat \<Rightarrow> char" where
  "digit_char d = char_of (48 + d)"

fun digits :: "nat \<Rightarrow> string" where
  "digits n = (if n < 10 then [digit_char n] else digits (n div 10) @ [digit_char (n mod 10)])"

declare digits.simps [simp del]

definition int_to_string :: "int \<Rightarrow> string" where
  "int_to_string i = (if i < 0 then CHR ''-'' # digits (nat (- i)) else digits (nat i))"

fun number_to_string :: "jsnum \<Rightarrow> string" where
  "number_to_string (Finite i) = int_to_string i"
| "number_to_string NaN = ''NaN''"
| "number_to_string PosInfinity = ''Infinity''"
| "number_to_string NegInfinity = ''-Infinity''"

text \<open>
  \<open>`${v}`\<close>: the string a template literal puts in place of a value. An array prints
  its elements separated by commas, with nothing for \<open>undefined\<close> and \<open>null\<close>; an object
  prints as \<open>[object Object]\<close>; a function prints its source text.
\<close>

primrec to_string :: "jsval \<Rightarrow> string"
  and to_string_elems :: "jsval list \<Rightarrow> string list" where
  "to_string JUndefined = ''undefined''"
| "to_string JNull = ''null''"
| "to_string (JBool b) = (if b then ''true'' else ''false'')"
| "to_string (JNum n) = number_to_string n"
| "to_string (JStr s) = s"
| "to_string (JArr xs) = concat (to_string_elems xs)"
| "to_string (JObj kvs) = ''[object Object]''"
| "to_string (JFun src c) = src"
| "to_string_elems [] = []"
| "to_string_elems (x # xs) =
     (let s = (if x = JUndefined \<or> x = JNull then [] else to_string x)
      in (if xs = [] then [s] else [s, '',''])) @ to_string_elems xs"

section \<open>Paths\<close>

text \<open>
  \<open>absPath\<close> and \<open>resolvePath\<close> call \<open>path.resolve\<close> and \<open>path.relative\<close>. Both belong
  to the platform; they are given here in their POSIX form, as the platform computes
  them, on the segments between the separators. \<open>normalizeString\<close> drops empty
  segments and \<open>.\<close>, and lets \<open>..\<close> remove the segment before it; above the root \<open>..\<close>
  is dropped, in a relative path it is kept.
\<close>

primrec split_path :: "string \<Rightarrow> string list" where
  "split_path [] = [[]]"
| "split_path (c # cs) =
     (if c = CHR ''/'' then [] # split_path cs
      else (case split_path cs of [] \<Rightarrow> [[c]] | s # ss \<Rightarrow> (c # s) # ss))"

fun join_path :: "string list \<Rightarrow> string" where
  "join_path [] = []"
| "join_path [s] = s"
| "join_path (s # t # ss) = s @ ''/'' @ join_path (t # ss)"

fun normalizeString :: "bool \<Rightarrow> string list \<Rightarrow> string list \<Rightarrow> string list" where
  "normalizeString allowAboveRoot res [] = res"
| "normalizeString allowAboveRoot res (s # ss) =
     (if s = [] \<or> s = ''.'' then normalizeString allowAboveRoot res ss
      else if s = ''..'' then
        (if res \<noteq> [] \<and> last res \<noteq> ''..'' then normalizeString allowAboveRoot (butlast res) ss
         else if allowAboveRoot then normalizeString allowAboveRoot (res @ [''..'']) ss
         else normalizeString allowAboveRoot res ss)
      else normalizeString allowAboveRoot (res @ [s]) ss)"

text \<open>
  The loop of \<open>path.resolve\<close> runs over its arguments from the right, and last over the
  working directory, until the path built so far is absolute; empty arguments are
  skipped.
\<close>

fun resolve_loop :: "string list \<Rightarrow> string \<Rightarrow> string \<times> bool" where
  "resolve_loop [] resolvedPath = (resolvedPath, False)"
| "resolve_loop (p # ps) resolvedPath =
     (if p = [] then resolve_loop ps resolvedPath
      else if hd p = CHR ''/'' then (p @ ''/'' @ resolvedPath, True)
      else resolve_loop ps (p @ ''/'' @ resolvedPath))"

definition path_resolve :: "string \<Rightarrow> string list \<Rightarrow> string" where
  "path_resolve process_cwd paths =
     (case resolve_loop (rev paths @ [process_cwd]) [] of
        (resolvedPath, resolvedAbsolute) \<Rightarrow>
          (let normalized = join_path (normalizeString (\<not> resolvedAbsolute) [] (split_path resolvedPath))
           in if resolvedAbsolute then CHR ''/'' # normalized
              else if normalized \<noteq> [] then normalized else ''.''))"

definition segments :: "string \<Rightarrow> string list" where
  "segments p = filter (\<lambda>s. s \<noteq> []) (split_path p)"

fun drop_common :: "string list \<Rightarrow> string list \<Rightarrow> string list \<times> string list" where
  "drop_common (x # xs) (y # ys) = (if x = y then drop_common xs ys else (x # xs, y # ys))"
| "drop_common xs ys = (xs, ys)"

text \<open>
  \<open>path.relative\<close> resolves both paths, drops their common leading segments, climbs
  out of what is left of \<open>from\<close> with one \<open>..\<close> per segment and descends into what is
  left of \<open>to\<close>. (The platform compares the two resolved paths character by character
  and cuts at the last common separator, which for resolved paths is the same.)
\<close>

definition path_relative :: "string \<Rightarrow> string \<Rightarrow> string \<Rightarrow> string" where
  "path_relative process_cwd from to =
     (if from = to then []
      else
        (let from' = path_resolve process_cwd [from];
             to' = path_resolve process_cwd [to]
         in if from' = to' then []
            else (case drop_common (segments from') (segments to') of
                    (up, down) \<Rightarrow> join_path (replicate (length up) ''..'' @ down))))"

text \<open>
  For the statements about paths: a path is absolute when it starts at the root, as
  the working directory of a process always is; a plain segment is a name, neither
  empty nor \<open>.\<close> nor \<open>..\<close> and free of separators; \<open>resolved_segments\<close> are the segments
  that \<open>path.resolve\<close> arrives at.
\<close>

definition is_absolute :: "string \<Rightarrow> bool" where
  "is_absolute p \<longleftrightarrow> (case p of [] \<Rightarrow> False | c # cs \<Rightarrow> c = CHR ''/'')"

definition plain_segment :: "string \<Rightarrow> bool" where
  "plain_segment s \<longleftrightarrow> s \<noteq> [] \<and> CHR ''/'' \<notin> set s \<and> s \<noteq> ''.'' \<and> s \<noteq> ''..''"

definition resolved_segments :: "string \<Rightarrow> string list \<Rightarrow> string list" where
  "resolved_segments cwd paths =
     normalizeString False [] (segments (fst (resolve_loop (rev paths @ [cwd]) [])))"

section \<open>JSON.stringify with an indentation of two spaces\<close>

text \<open>
  \<open>JSON.stringify(value, null, 2)\<close>, as the language defines it, for the values of the
  embedding: no replacer, and a gap of two spaces for each level of nesting.
\<close>

definition hex_char :: "nat \<Rightarrow> char" where
  "hex_char d = (if d < 10 then char_of (48 + d) else char_of (87 + d))"

text \<open>\<open>QuoteJSONString\<close>, one byte at a time.\<close>

definition quote_char :: "char \<Rightarrow> string" where
  "quote_char c =
     (if c = CHR 0x08 then [CHR 0x5C, CHR ''b'']
      else if c = CHR 0x09 then [CHR 0x5C, CHR ''t'']
      else if c = CHR 0x0A then [CHR 0x5C, CHR ''n'']
      else if c = CHR 0x0C then [CHR 0x5C, CHR ''f'']
      else if c = CHR 0x0D then [CHR 0x5C, CHR ''r'']
      else if c = CHR 0x22 then [CHR 0x5C, CHR 0x22]
      else if c = CHR 0x5C then [CHR 0x5C, CHR 0x5C]
      else if (of_char c :: nat) < 32 then
        [CHR 0x5C, CHR ''u'', CHR ''0'', CHR ''0'',
         hex_char ((of_char c :: nat) div 16), hex_char ((of_char c :: nat) mod 16)]
      else [c])"

definition QuoteJSONString :: "string \<Rightarrow> string" where
  "QuoteJSONString s = CHR 0x22 # concat (map quote_char s) @ [CHR 0x22]"

definition indent :: "nat \<Rightarrow> string" where
  "indent level = replicate (2 * level) CHR '' ''"

fun join_with :: "string \<Rightarrow> string list \<Rightarrow> string" where
  "join_with sep [] = []"
| "join_with sep [s] = s"
| "join_with sep (s # t # ss) = s @ sep @ join_with sep (t # ss)"

text \<open>
  The text of an object or an array at nesting depth \<open>level\<close> from the texts of its
  members: \<open>{}\<close> when there are none, otherwise one member per line, one step deeper.
\<close>

definition bracket :: "char \<Rightarrow> char \<Rightarrow> nat \<Rightarrow> string list \<Rightarrow> string" where
  "bracket l r level partial =
     (if partial = [] then [l, r]
      else [l] @ [CHR 0x0A] @ indent (Suc level)
           @ join_with ('','' @ [CHR 0x0A] @ indent (Suc level)) partial
           @ [CHR 0x0A] @ indent level @ [r])"

text \<open>
  \<open>SerializeJSONProperty\<close>: \<open>None\<close> stands for the \<open>undefined\<close> that the serializer
  gives for \<open>undefined\<close> and for functions. Such a property is left out of its object;
  in an array its place is taken by \<open>null\<close>. A number that is not finite prints as
  \<open>null\<close>.
\<close>

primrec SerializeJSONProperty :: "jsval \<Rightarrow> nat \<Rightarrow> string option"
  and SerializeJSONArray :: "jsval list \<Rightarrow> nat \<Rightarrow> string list"
  and SerializeJSONObject :: "(string \<times> jsval) list \<Rightarrow> nat \<Rightarrow> string list"
  and SerializeJSONMember :: "string \<times> jsval \<Rightarrow> nat \<Rightarrow> string list" where
  "SerializeJSONProperty JUndefined level = None"
| "SerializeJSONProperty JNull level = Some ''null''"
| "SerializeJSONProperty (JBool b) level = Some (if b then ''true'' else ''false'')"
| "SerializeJSONProperty (JNum n) level =
     Some (case n of Finite i \<Rightarrow> int_to_string i | _ \<Rightarrow> ''null'')"
| "SerializeJSONProperty (JStr s) level = Some (QuoteJSONString s)"
| "SerializeJSONProperty (JArr xs) level =
     Some (bracket CHR ''['' CHR '']'' level (SerializeJSONArray xs (Suc level)))"
| "SerializeJSONProperty (JObj kvs) level =
     Some (bracket CHR ''{'' CHR ''}'' level (SerializeJSONObject kvs (Suc level)))"
| "SerializeJSONProperty (JFun src c) level = None"
| "SerializeJSONArray [] level = []"
| "SerializeJSONArray (x # xs) level =
     (case SerializeJSONProperty x level of None \<Rightarrow> ''null'' | Some s \<Rightarrow> s)
       # SerializeJSONArray xs level"
| "SerializeJSONObject [] level = []"
| "SerializeJSONObject (kv # kvs) level =
     SerializeJSONMember kv level @ SerializeJSONObject kvs level"
| "SerializeJSONMember (k, v) level =
     (case SerializeJSONProperty v level of
        None \<Rightarrow> []
      | Some s \<Rightarrow> [QuoteJSONString k @ '': '' @ s])"

definition JSON_stringify :: "jsval \<Rightarrow> string option" where
  "JSON_stringify v = SerializeJSONProperty v 0"

section \<open>The environment of a run\<close>

text \<open>
  What \<open>generate\<close> reads from outside is a parameter of the embedding: the working
  directory of the process, the directory of the module that holds \<open>generate\<close>
  (\<open>module.path\<close>), the module loader, and the file system. \<open>require\<close> either throws,
  given here by the message of what it throws, or gives the \<open>module.exports\<close> of the
  loaded module. \<open>mkdir\<close> and \<open>writeFile\<close> give \<open>None\<close> when they succeed and the
  message of the error otherwise.
\<close>

record world =
  process_cwd :: string
  module_path :: string
  require :: "string \<Rightarrow> string + jsval"
  existsSync :: "string \<Rightarrow> bool"
  mkdir :: "string \<Rightarrow> string option"
  writeFile :: "string \<Rightarrow> string \<Rightarrow> string option"

text \<open>The argument of \<open>generate\<close>; \<open>outDir\<close> and \<open>silent\<close> are optional.\<close>

record args =
  config :: string
  outDir :: "string option"
  silent :: "bool option"

text \<open>
  What a run does to the outside, in order: lines printed by \<open>console.log\<close> and the
  calls made to the file system.
\<close>

datatype event =
    ConsoleLog string
  | FsMkdir string
  | FsWriteFile string string

text \<open>
  The errors a run can end with, each with its message. The source throws plain
  \<open>Error\<close> values and tells the kinds apart by the text only; the constructors name the
  place that throws. \<open>ImportError\<close>, \<open>FactoryError\<close> and \<open>FilesystemError\<close> are thrown
  by the loader, by the exported function and by the file system and pass through
  \<open>generate\<close> as they are; \<open>PropertyReadError\<close> is the \<open>TypeError\<close> of reading a
  property of \<open>undefined\<close> or \<open>null\<close>.
\<close>

datatype error =
    ImportError string
  | PropertyReadError string
  | InvalidExportError string
  | FactoryError string
  | UnresolvedConfigError string
  | MissingVersionError string
  | FilesystemError string

text \<open>
  \<open>generate\<close> is asynchronous: the promise it returns is fulfilled, is rejected with an
  error, or stays pending for ever (when the promise of the exported function never
  settles).
\<close>

datatype completion = Fulfilled | Rejected error | Pending

datatype awaited = Value jsval | Raised string | Never

text \<open>
  \<open>v.key\<close>, for the two keys that \<open>generate\<close> reads, \<open>default\<close> and \<open>actorspecVersion\<close>:
  reading a property throws on \<open>undefined\<close> and \<open>null\<close>, an object gives the property or
  \<open>undefined\<close>, and no other value has a property of either name.
\<close>

fun get_property :: "jsval \<Rightarrow> string \<Rightarrow> string + jsval" where
  "get_property JUndefined key = Inl (''Cannot read properties of undefined (reading '' @ [CHR 0x27] @ key @ [CHR 0x27] @ '')'')"
| "get_property JNull key = Inl (''Cannot read properties of null (reading '' @ [CHR 0x27] @ key @ [CHR 0x27] @ '')'')"
| "get_property (JObj kvs) key = Inr (case map_of kvs key of None \<Rightarrow> JUndefined | Some v \<Rightarrow> v)"
| "get_property v key = Inr JUndefined"

text \<open>
  \<open>await f()\<close>: what the call returns or the promise it returns resolves to, what it
  throws or the promise rejects with, or nothing when the promise never settles.
\<close>

fun await_call :: "jsval \<Rightarrow> awaited" where
  "await_call (JFun src (Returns v)) = Value v"
| "await_call (JFun src (Throws m)) = Raised m"
| "await_call (JFun src (Resolves v)) = Value v"
| "await_call (JFun src (Rejects m)) = Raised m"
| "await_call (JFun src NeverSettles) = Never"
| "await_call v = Raised (to_string v @ '' is not a function'')"

section \<open>The command\<close>

definition absPath :: "world \<Rightarrow> string \<Rightarrow> string" where
  "absPath w filepath = (let cwd = process_cwd w in path_resolve (process_cwd w) [cwd, filepath])"

definition resolvePath :: "world \<Rightarrow> string \<Rightarrow> string" where
  "resolvePath w filepath = path_relative (process_cwd w) (module_path w) (absPath w filepath)"

text \<open>
  \<open>const log = silent ? () => {} : console.log\<close>: what a call of \<open>log\<close> adds to the
  trace of the run.
\<close>

definition log_line :: "bool option \<Rightarrow> string \<Rightarrow> event list" where
  "log_line quiet line = (if quiet = Some True then [] else [ConsoleLog line])"

text \<open>The messages of the three errors that \<open>generate\<close> throws itself (lines 45, 51, 55).\<close>

definition invalid_export_message :: "string \<Rightarrow> jsval \<Rightarrow> string" where
  "invalid_export_message absConfigPath configOrInit =
     ''Failed to import actorspec from path '' @ absConfigPath
       @ '', got '' @ to_string configOrInit @ '' instead''"

definition unresolved_message :: "string \<Rightarrow> jsval \<Rightarrow> string" where
  "unresolved_message absConfigPath configOrInit =
     ''Failed to import actorspec from path '' @ absConfigPath
       @ '', the import did not resolve to object, got ''
       @ to_string configOrInit @ '' instead''"

definition missing_version_message :: "string \<Rightarrow> string" where
  "missing_version_message absConfigPath =
     ''Invalid actorspec object imported from path '' @ absConfigPath
       @ '', config.actorspecVersion is missing''"

text \<open>The message of \<open>writeFile\<close> when it is given \<open>undefined\<close> in place of the data.\<close>

definition invalid_data_message :: string where
  "invalid_data_message =
     ''The '' @ [CHR 0x22] @ ''data'' @ [CHR 0x22]
       @ '' argument must be of type string or an instance of Buffer, TypedArray, or DataView. Received undefined''"

text \<open>
  The body of \<open>generate\<close> is one sequence of statements with three \<open>throw\<close>s of its
  own. It is embedded as four definitions, one for each stretch between them, each
  handing the trace so far to the next: lines 36 to 46 (\<open>generate\<close>), 48 to 52
  (\<open>generate_resolve\<close>), 54 to 56 (\<open>generate_validate\<close>) and 58 to 68
  (\<open>generate_write\<close>, with the three paths of lines 60 to 62 as \<open>outDirUsed\<close>,
  \<open>absOutDirPath\<close> and \<open>absOutFilePath\<close>).
\<close>

definition outDirUsed :: "world \<Rightarrow> args \<Rightarrow> string" where
  "outDirUsed w a =
     (if outDir a \<noteq> None \<and> outDir a \<noteq> Some [] then the (outDir a)
      else if existsSync w (absPath w ''./.actor'') then ''./.actor'' else ''.'')"

definition absOutDirPath :: "world \<Rightarrow> args \<Rightarrow> string" where
  "absOutDirPath w a = absPath w (outDirUsed w a)"

definition absOutFilePath :: "world \<Rightarrow> args \<Rightarrow> string" where
  "absOutFilePath w a = path_resolve (process_cwd w) [absOutDirPath w a, ''actorspec.json'']"

definition generate_write :: "world \<Rightarrow> args \<Rightarrow> event list \<Rightarrow> jsval \<Rightarrow> event list \<times> completion" where
  "generate_write w a t resolvedConfig =
    (let log = log_line (silent a);
         jsonConfig = JSON_stringify resolvedConfig;
         t3 = t @ log (''Writing resolved config to file '' @ absOutFilePath w a)
                @ [FsMkdir (absOutDirPath w a)]
     in
     case mkdir w (absOutDirPath w a) of
       Some m \<Rightarrow> (t3, Rejected (FilesystemError m))
     | None \<Rightarrow>
     (case jsonConfig of
       None \<Rightarrow> (t3, Rejected (FilesystemError invalid_data_message))
     | Some content \<Rightarrow>
     (case writeFile w (absOutFilePath w a) content of
       Some m \<Rightarrow> (t3 @ [FsWriteFile (absOutFilePath w a) content], Rejected (FilesystemError m))
     | None \<Rightarrow> (t3 @ [FsWriteFile (absOutFilePath w a) content] @ log ''Done!'', Fulfilled))))"

definition generate_validate :: "world \<Rightarrow> args \<Rightarrow> event list \<Rightarrow> jsval \<Rightarrow> event list \<times> completion" where
  "generate_validate w a t resolvedConfig =
    (let absConfigPath = absPath w (config a) in
     case get_property resolvedConfig ''actorspecVersion'' of
       Inl m \<Rightarrow> (t, Rejected (PropertyReadError m))
     | Inr actorspecVersion \<Rightarrow>
     if \<not> truthy actorspecVersion
     then (t, Rejected (MissingVersionError (missing_version_message absConfigPath)))
     else generate_write w a t resolvedConfig)"

definition generate_resolve :: "world \<Rightarrow> args \<Rightarrow> event list \<Rightarrow> jsval \<Rightarrow> event list \<times> completion" where
  "generate_resolve w a t configOrInit =
    (let log = log_line (silent a);
         absConfigPath = absPath w (config a);
         t2 = t @ log ''Actorspec found! Resolving...''
     in
     case (if typeof configOrInit = ''function'' then await_call configOrInit
           else Value configOrInit) of
       Raised m \<Rightarrow> (t2, Rejected (FactoryError m))
     | Never \<Rightarrow> (t2, Pending)
     | Value resolvedConfig \<Rightarrow>
     if \<not> truthy resolvedConfig \<or> typeof configOrInit \<noteq> ''object''
     then (t2, Rejected (UnresolvedConfigError (unresolved_message absConfigPath configOrInit)))
     else generate_validate w a t2 resolvedConfig)"

definition generate :: "world \<Rightarrow> args \<Rightarrow> event list \<times> completion" where
  "generate w a =
    (let log = log_line (silent a);
         absConfigPath = absPath w (config a);
         configPath = resolvePath w (config a);
         t1 = log (''Importing file from '' @ absConfigPath)
     in
     case require w configPath of
       Inl m \<Rightarrow> (t1, Rejected (ImportError m))
     | Inr exports \<Rightarrow>
     (case get_property exports ''default'' of
       Inl m \<Rightarrow> (t1, Rejected (PropertyReadError m))
     | Inr configOrInit \<Rightarrow>
     if \<not> truthy configOrInit \<or> typeof configOrInit \<notin> set [''function'', ''object'']
     then (t1, Rejected (InvalidExportError (invalid_export_message absConfigPath configOrInit)))
     else generate_resolve w a t1 configOrInit))"

text \<open>
  The calls a run made to the file system, the lines it printed, and the paths and
  contents it handed to \<open>writeFile\<close>.
\<close>

fun is_fs_event :: "event \<Rightarrow> bool" where
  "is_fs_event (ConsoleLog line) = False"
| "is_fs_event (FsMkdir p) = True"
| "is_fs_event (FsWriteFile p content) = True"

definition fs_events :: "event list \<times> completion \<Rightarrow> event list" where
  "fs_events run = filter is_fs_event (fst run)"

definition printed :: "event list \<times> completion \<Rightarrow> event list" where
  "printed run = filter (\<lambda>e. \<not> is_fs_event e) (fst run)"

fun written_files :: "event list \<Rightarrow> (string \<times> string) list" where
  "written_files [] = []"
| "written_files (FsWriteFile p content # es) = (p, content) # written_files es"
| "written_files (e # es) = written_files es"

section \<open>Reading JSON text back\<close>

text \<open>
  The specification speaks of parsing the written file. \<open>JSON_parse\<close> follows the JSON
  grammar: white space around every token, the three literal names, strings with
  their escapes, arrays and objects. Two parts of the grammar are read narrowly, so
  that whatever \<open>JSON_parse\<close> accepts means what it means to \<open>JSON.parse\<close>: a number is
  read when it is an integer within \<open>Number.MAX_SAFE_INTEGER\<close> (a fraction, an exponent,
  a larger magnitude or \<open>-0\<close> is refused), and a \<open>\u\<close> escape is read when it names an
  ASCII character. A key that occurs twice in an object keeps its first place and
  its last value.

  The parser runs on fuel, one unit for each value and each member it starts;
  \<open>JSON_parse\<close> gives it the length of the text, which is never used up.
\<close>

definition is_ws :: "char \<Rightarrow> bool" where
  "is_ws c \<longleftrightarrow> c = CHR '' '' \<or> c = CHR 0x09 \<or> c = CHR 0x0A \<or> c = CHR 0x0D"




definition MAX_SAFE_INTEGER :: int where
  "MAX_SAFE_INTEGER = 2 ^ 53 - 1"












text \<open>
  The values that JSON can carry: \<open>null\<close>, booleans, integers in the safe range,
  strings, and arrays and objects of such values, the keys of an object distinct.
\<close>

primrec json_data :: "jsval \<Rightarrow> bool"
  and json_data_elements :: "jsval list \<Rightarrow> bool"
  and json_data_members :: "(string \<times> jsval) list \<Rightarrow> bool"
  and json_data_member :: "string \<times> jsval \<Rightarrow> bool" where
  "json_data JUndefined = False"
| "json_data JNull = True"
| "json_data (JBool b) = True"
| "json_data (JNum n) = (case n of Finite i \<Rightarrow> \<bar>i\<bar> \<le> MAX_SAFE_INTEGER | _ \<Rightarrow> False)"
| "json_data (JStr s) = True"
| "json_data (JArr xs) = json_data_elements xs"
| "json_data (JObj kvs) = (distinct (map fst kvs) \<and> json_data_members kvs)"
| "json_data (JFun src c) = False"
| "json_data_elements [] = True"
| "json_data_elements (x # xs) = (json_data x \<and> json_data_elements xs)"
| "json_data_members [] = True"
| "json_data_members (kv # kvs) = (json_data_member kv \<and> json_data_members kvs)"
| "json_data_member (k, v) = json_data v"



text \<open>
  For the proof that a parsed text gives back its value: strings of white space, the
  characters a value can start with, the separator between the members of an array
  or object at depth \<open>l\<close>, and what is shown of a value, of the elements of an array
  and of the members of an object.
\<close>

definition all_ws :: "string \<Rightarrow> bool" where
  "all_ws w \<longleftrightarrow> (\<forall>c \<in> set w. is_ws c)"






section \<open>A project to run the command in\<close>

text \<open>
  A project in \<open>/proj\<close> with the config module \<open>/proj/actorspec.js\<close>, the package
  installed under \<open>/opt/actor-spec\<close>, and a file system on which every operation
  succeeds. \<open>loaded\<close> is what loading the config module gives, \<open>actor_dir\<close> says
  whether \<open>/proj/.actor\<close> exists.
\<close>

definition example_world :: "string + jsval \<Rightarrow> bool \<Rightarrow> world" where
  "example_world loaded actor_dir =
     \<lparr> process_cwd = ''/proj'',
       module_path = ''/opt/actor-spec/dist/cjs/cli'',
       require = (\<lambda>p. if p = ''../../../../../proj/actorspec.js'' then loaded
                       else Inl (''Cannot find module '' @ [CHR 0x27] @ p @ [CHR 0x27])),
       existsSync = (\<lambda>p. actor_dir \<and> p = ''/proj/.actor''),
       mkdir = (\<lambda>p. None),
       writeFile = (\<lambda>p content. None) \<rparr>"

definition example_args :: "string option \<Rightarrow> args" where
  "example_args dir = \<lparr> config = ''actorspec.js'', outDir = dir, silent = Some True \<rparr>"

text \<open>A module whose default export is \<open>v\<close>.\<close>

definition exporting :: "jsval \<Rightarrow> string + jsval" where
  "exporting v = Inr (JObj [(''default'', v)])"

text \<open>\<open>{ actorspecVersion: 1, actor: { title: "Demo" } }\<close>\<close>

definition demo_config :: jsval where
  "demo_config =
     JObj [(''actorspecVersion'', JNum (Finite 1)), (''actor'', JObj [(''title'', JStr ''Demo'')])]"

definition demo_json :: string where
  "demo_json =
     ''{'' @ [CHR 0x0A]
     @ ''  '' @ [CHR 0x22] @ ''actorspecVersion'' @ [CHR 0x22] @ '': 1,'' @ [CHR 0x0A]
     @ ''  '' @ [CHR 0x22] @ ''actor'' @ [CHR 0x22] @ '': {'' @ [CHR 0x0A]
     @ ''    '' @ [CHR 0x22] @ ''title'' @ [CHR 0x22] @ '': '' @ [CHR 0x22] @ ''Demo'' @ [CHR 0x22] @ [CHR 0x0A]
     @ ''  }'' @ [CHR 0x0A]
     @ ''}''"




section \<open>What each stretch of the command does\<close>

text \<open>
  For each of the four stretches: the calls it makes to the file system and the way it
  ends, as functions of the environment alone. The lines it prints and the trace it
  was handed play no part in either.
\<close>

lemma fs_log [simp]: "filter is_fs_event (log_line s l) = []"
  by (simp add: log_line_def)

lemma printed_log [simp]: "filter (\<lambda>e. \<not> is_fs_event e) (log_line (Some True) l) = []"
  by (simp add: log_line_def)

lemma write_fs:
  "filter is_fs_event (fst (generate_write w a t r)) =
     filter is_fs_event t @ FsMkdir (absOutDirPath w a) #
       (case mkdir w (absOutDirPath w a) of Some m \<Rightarrow> []
        | None \<Rightarrow> (case JSON_stringify r of None \<Rightarrow> []
            | Some content \<Rightarrow> [FsWriteFile (absOutFilePath w a) content]))"
  by (simp add: generate_write_def Let_def split: option.split)

lemma write_result:
  "snd (generate_write w a t r) =
     (case mkdir w (absOutDirPath w a) of Some m \<Rightarrow> Rejected (FilesystemError m)
      | None \<Rightarrow> (case JSON_stringify r of None \<Rightarrow> Rejected (FilesystemError invalid_data_message)
          | Some content \<Rightarrow> (case writeFile w (absOutFilePath w a) content of
               Some m \<Rightarrow> Rejected (FilesystemError m) | None \<Rightarrow> Fulfilled)))"
  by (simp add: generate_write_def Let_def split: option.split)

lemma validate_fs:
  "filter is_fs_event (fst (generate_validate w a t r)) =
     filter is_fs_event t @
     (case get_property r ''actorspecVersion'' of Inl m \<Rightarrow> []
      | Inr v \<Rightarrow> if truthy v then filter is_fs_event (fst (generate_write w a [] r)) else [])"
  by (simp add: generate_validate_def Let_def write_fs split: sum.split)

lemma validate_result:
  "snd (generate_validate w a t r) =
     (case get_property r ''actorspecVersion'' of Inl m \<Rightarrow> Rejected (PropertyReadError m)
      | Inr v \<Rightarrow> if truthy v then snd (generate_write w a [] r)
                 else Rejected (MissingVersionError (missing_version_message (absPath w (config a)))))"
  by (simp add: generate_validate_def Let_def write_result split: sum.split)

lemma resolve_fs:
  "filter is_fs_event (fst (generate_resolve w a t v)) =
     filter is_fs_event t @
     (if typeof v = ''object'' \<and> truthy v
      then filter is_fs_event (fst (generate_validate w a [] v)) else [])"
  by (simp add: generate_resolve_def Let_def validate_fs split: awaited.split)

lemma resolve_result:
  "snd (generate_resolve w a t v) =
     (case (if typeof v = ''function'' then await_call v else Value v) of
        Raised m \<Rightarrow> Rejected (FactoryError m)
      | Never \<Rightarrow> Pending
      | Value r \<Rightarrow>
          if \<not> truthy r \<or> typeof v \<noteq> ''object''
          then Rejected (UnresolvedConfigError (unresolved_message (absPath w (config a)) v))
          else snd (generate_validate w a [] r))"
  by (simp add: generate_resolve_def Let_def validate_result split: awaited.split)

lemma generate_fs:
  "filter is_fs_event (fst (generate w a)) =
     (case require w (resolvePath w (config a)) of Inl m \<Rightarrow> []
      | Inr exports \<Rightarrow> (case get_property exports ''default'' of Inl m \<Rightarrow> []
          | Inr v \<Rightarrow> filter is_fs_event (fst (generate_resolve w a [] v))))"
  by (simp add: generate_def Let_def resolve_fs split: sum.split)

lemma generate_result:
  "snd (generate w a) =
     (case require w (resolvePath w (config a)) of Inl m \<Rightarrow> Rejected (ImportError m)
      | Inr exports \<Rightarrow> (case get_property exports ''default'' of
            Inl m \<Rightarrow> Rejected (PropertyReadError m)
          | Inr v \<Rightarrow>
              if \<not> truthy v \<or> typeof v \<notin> set [''function'', ''object'']
              then Rejected (InvalidExportError (invalid_export_message (absPath w (config a)) v))
              else snd (generate_resolve w a [] v)))"
  by (simp add: generate_def Let_def resolve_result split: sum.split)

subsection \<open>The flag \<open>silent\<close>\<close>

lemma outDirUsed_silent [simp]: "outDirUsed w (a\<lparr>silent := s\<rparr>) = outDirUsed w a"
  by (simp add: outDirUsed_def)

lemma absOutDirPath_silent [simp]: "absOutDirPath w (a\<lparr>silent := s\<rparr>) = absOutDirPath w a"
  by (simp add: absOutDirPath_def)

lemma absOutFilePath_silent [simp]: "absOutFilePath w (a\<lparr>silent := s\<rparr>) = absOutFilePath w a"
  by (simp add: absOutFilePath_def)

lemma generate_silent_result:
  "snd (generate w (a\<lparr>silent := s\<rparr>)) = snd (generate w a)"
  by (simp add: generate_result resolve_result validate_result write_result
      cong: sum.case_cong awaited.case_cong option.case_cong if_cong)

lemma generate_silent_fs:
  "filter is_fs_event (fst (generate w (a\<lparr>silent := s\<rparr>))) = filter is_fs_event (fst (generate w a))"
  by (simp add: generate_fs resolve_fs validate_fs write_fs
      cong: sum.case_cong awaited.case_cong option.case_cong if_cong)

lemma write_printed:
  "silent a = Some True \<Longrightarrow>
   filter (\<lambda>e. \<not> is_fs_event e) (fst (generate_write w a t r)) = filter (\<lambda>e. \<not> is_fs_event e) t"
  by (simp add: generate_write_def Let_def split: option.split)

lemma validate_printed:
  "silent a = Some True \<Longrightarrow>
   filter (\<lambda>e. \<not> is_fs_event e) (fst (generate_validate w a t r)) = filter (\<lambda>e. \<not> is_fs_event e) t"
  by (simp add: generate_validate_def Let_def write_printed split: sum.split)

lemma resolve_printed:
  "silent a = Some True \<Longrightarrow>
   filter (\<lambda>e. \<not> is_fs_event e) (fst (generate_resolve w a t r)) = filter (\<lambda>e. \<not> is_fs_event e) t"
  by (simp add: generate_resolve_def Let_def validate_printed split: awaited.split)

lemma generate_silent_printed:
  "filter (\<lambda>e. \<not> is_fs_event e) (fst (generate w (a\<lparr>silent := Some True\<rparr>))) = []"
  by (simp add: generate_def Let_def resolve_printed split: sum.split)

lemma written_files_fs: "written_files (filter is_fs_event t) = written_files t"
  by (induction t rule: written_files.induct) simp_all

lemma generate_silent_written:
  "written_files (fst (generate w (a\<lparr>silent := s\<rparr>))) = written_files (fst (generate w a))"
  using generate_silent_fs [where w = w and a = a and s = s] written_files_fs [of "fst (generate w (a\<lparr>silent := s\<rparr>))"]
    written_files_fs [of "fst (generate w a)"]
  by simp

subsection \<open>An empty \<open>outDir\<close>\<close>

lemma outDirUsed_empty:
  "outDirUsed w (a\<lparr>outDir := Some []\<rparr>) = outDirUsed w (a\<lparr>outDir := None\<rparr>)"
  by (simp add: outDirUsed_def)

lemma absOutDirPath_empty:
  "absOutDirPath w (a\<lparr>outDir := Some []\<rparr>) = absOutDirPath w (a\<lparr>outDir := None\<rparr>)"
  by (simp add: absOutDirPath_def outDirUsed_empty)

lemma absOutFilePath_empty:
  "absOutFilePath w (a\<lparr>outDir := Some []\<rparr>) = absOutFilePath w (a\<lparr>outDir := None\<rparr>)"
  by (simp add: absOutFilePath_def absOutDirPath_empty)

lemma write_empty:
  "generate_write w (a\<lparr>outDir := Some []\<rparr>) t r = generate_write w (a\<lparr>outDir := None\<rparr>) t r"
  by (simp add: generate_write_def Let_def absOutFilePath_empty absOutDirPath_empty
      cong: option.case_cong)

lemma validate_empty:
  "generate_validate w (a\<lparr>outDir := Some []\<rparr>) t r = generate_validate w (a\<lparr>outDir := None\<rparr>) t r"
  by (simp add: generate_validate_def Let_def write_empty cong: sum.case_cong if_cong)

lemma resolve_empty:
  "generate_resolve w (a\<lparr>outDir := Some []\<rparr>) t v = generate_resolve w (a\<lparr>outDir := None\<rparr>) t v"
  by (simp add: generate_resolve_def Let_def validate_empty cong: awaited.case_cong if_cong)

subsection \<open>The errors and their messages\<close>
















text \<open>
  For an object that is exported as it is, the check of line 54 decides: without a
  truthy \<open>actorspecVersion\<close> the run ends with the error of line 55 before any call to
  the file system, and with one it does not end with that error.
\<close>

lemma exported_object_without_version:
  assumes "require w (resolvePath w (config a)) = Inr exports"
    and "get_property exports ''default'' = Inr (JObj kvs)"
    and "\<not> truthy (case map_of kvs ''actorspecVersion'' of None \<Rightarrow> JUndefined | Some x \<Rightarrow> x)"
  shows "snd (generate w a)
           = Rejected (MissingVersionError (missing_version_message (absPath w (config a))))
         \<and> fs_events (generate w a) = []"
  using assms
  by (auto simp: generate_result resolve_result validate_result write_result fs_events_def
        generate_fs resolve_fs validate_fs split: option.splits)

lemma exported_object_with_version:
  assumes "require w (resolvePath w (config a)) = Inr exports"
    and "get_property exports ''default'' = Inr (JObj kvs)"
    and "truthy (case map_of kvs ''actorspecVersion'' of None \<Rightarrow> JUndefined | Some x \<Rightarrow> x)"
  shows "snd (generate w a) \<noteq> Rejected (MissingVersionError m)"
  using assms
  by (auto simp: generate_result resolve_result validate_result write_result
        split: option.splits)

section \<open>What the path functions compute\<close>

lemma split_path_nonempty [simp]: "split_path p \<noteq> []"
  by (induction p) (auto split: list.splits)

lemma split_path_append: "split_path (a @ CHR ''/'' # b) = split_path a @ split_path b"
  by (induction a) (auto split: list.splits)

lemma split_path_no_sep: "CHR ''/'' \<notin> set s \<Longrightarrow> split_path s = [s]"
  by (induction s) auto

lemma split_path_segments_no_sep: "s \<in> set (split_path p) \<Longrightarrow> CHR ''/'' \<notin> set s"
  by (induction p arbitrary: s) (auto split: list.splits if_splits)

lemma split_join_path:
  "segs \<noteq> [] \<Longrightarrow> \<forall>s \<in> set segs. CHR ''/'' \<notin> set s \<Longrightarrow> split_path (join_path segs) = segs"
  by (induction segs rule: join_path.induct) (simp_all add: split_path_no_sep split_path_append)

lemma normalizeString_append:
  "normalizeString a res (xs @ ys) = normalizeString a (normalizeString a res xs) ys"
  by (cases a; induction xs arbitrary: res; simp)

lemma normalizeString_plain:
  "\<forall>s \<in> set segs. plain_segment s \<Longrightarrow> normalizeString a res segs = res @ segs"
  by (induction segs arbitrary: res) (auto simp: plain_segment_def)

lemma normalizeString_filter:
  "normalizeString a res (filter (\<lambda>s. s \<noteq> []) segs) = normalizeString a res segs"
  by (cases a; induction segs arbitrary: res; simp)

lemma normalizeString_keeps_plain:
  "\<forall>s \<in> set res. plain_segment s \<Longrightarrow> \<forall>s \<in> set segs. CHR ''/'' \<notin> set s
   \<Longrightarrow> \<forall>s \<in> set (normalizeString False res segs). plain_segment s"
proof (induction segs arbitrary: res)
  case Nil
  then show ?case by simp
next
  case (Cons s ss)
  have b: "\<forall>s \<in> set (butlast res). plain_segment s"
    using Cons.prems(1) by (auto dest: in_set_butlastD)
  have r: "\<forall>s \<in> set ss. CHR ''/'' \<notin> set s"
    using Cons.prems(2) by simp
  have e: "s \<noteq> [] \<Longrightarrow> s \<noteq> ''.'' \<Longrightarrow> s \<noteq> ''..'' \<Longrightarrow> \<forall>x \<in> set (res @ [s]). plain_segment x"
    using Cons.prems by (auto simp: plain_segment_def)
  show ?case
    using Cons.IH[OF b r] Cons.IH[OF Cons.prems(1) r] Cons.IH[OF e r]
    by simp
qed

lemma normalizeString_up:
  "\<forall>s \<in> set res. plain_segment s \<Longrightarrow> k \<le> length res
   \<Longrightarrow> normalizeString False res (replicate k ''..'') = take (length res - k) res"
proof (induction k arbitrary: res)
  case 0
  then show ?case by simp
next
  case (Suc k)
  then have ne: "res \<noteq> []" by auto
  with Suc.prems have "last res \<noteq> ''..''"
    by (auto simp: plain_segment_def dest!: last_in_set)
  moreover have "\<forall>s \<in> set (butlast res). plain_segment s"
    using Suc.prems by (auto dest: in_set_butlastD)
  moreover have "k \<le> length (butlast res)"
    using Suc.prems by simp
  ultimately show ?case
    using Suc.IH[of "butlast res"] ne by (simp add: butlast_conv_take)
qed


lemma segments_Nil [simp]: "segments [] = []"
  by (simp add: segments_def)

lemma segments_append: "segments (a @ CHR ''/'' # b) = segments a @ segments b"
  by (simp add: segments_def split_path_append)

lemma segments_sep [simp]: "segments (CHR ''/'' # b) = segments b"
  using segments_append[of "[]" b] by simp

lemma segments_trailing [simp]: "segments (a @ ''/'') = segments a"
  using segments_append[of a "[]"] by simp

lemma segments_join_path:
  "\<forall>s \<in> set segs. plain_segment s \<Longrightarrow> segments (join_path segs) = segs"
proof (cases "segs = []")
  case True
  then show ?thesis by simp
next
  case False
  assume p: "\<forall>s \<in> set segs. plain_segment s"
  then have "split_path (join_path segs) = segs"
    using False by (intro split_join_path) (auto simp: plain_segment_def)
  moreover have "filter (\<lambda>s. s \<noteq> []) segs = segs"
    using p by (auto simp: plain_segment_def filter_id_conv)
  ultimately show ?thesis
    by (simp add: segments_def)
qed

lemma segments_no_sep: "s \<in> set (segments p) \<Longrightarrow> CHR ''/'' \<notin> set s"
  by (auto simp: segments_def dest: split_path_segments_no_sep)

lemma normalizeString_segments:
  "normalizeString a res (split_path p) = normalizeString a res (segments p)"
  by (simp add: segments_def normalizeString_filter)

lemma resolve_loop_absolute:
  "is_absolute cwd \<Longrightarrow> snd (resolve_loop (ps @ [cwd]) acc) = True"
  by (induction ps arbitrary: acc) (auto simp: is_absolute_def split: list.splits)

lemma resolve_loop_segments:
  "segments (fst (resolve_loop ps acc)) = segments (fst (resolve_loop ps [])) @ segments acc"
proof (induction ps arbitrary: acc)
  case Nil
  then show ?case by simp
next
  case (Cons p ps)
  show ?case
  proof (cases "p = [] \<or> hd p = CHR ''/''")
    case True
    then show ?thesis
      using Cons.IH[of acc] by (auto simp: segments_append)
  next
    case False
    then show ?thesis
      using Cons.IH[of "p @ ''/'' @ acc"] Cons.IH[of "p @ ''/''"]
      by (simp add: segments_append)
  qed
qed

lemma resolved_segments_plain: "\<forall>s \<in> set (resolved_segments cwd paths). plain_segment s"
  unfolding resolved_segments_def
  by (rule normalizeString_keeps_plain) (auto dest: segments_no_sep)

lemma path_resolve_absolute:
  assumes "is_absolute cwd"
  shows "path_resolve cwd paths = CHR ''/'' # join_path (resolved_segments cwd paths)"
  using resolve_loop_absolute[OF assms, of "rev paths" "[]"]
  by (auto simp add: path_resolve_def resolved_segments_def normalizeString_segments Let_def
      split: prod.split)

lemma path_resolve_one:
  assumes "\<forall>s \<in> set segs. plain_segment s"
  shows "path_resolve cwd [CHR ''/'' # join_path segs] = CHR ''/'' # join_path segs"
  using assms
  by (simp add: path_resolve_def normalizeString_segments segments_join_path normalizeString_plain)

lemma join_path_snoc: "segs \<noteq> [] \<Longrightarrow> join_path (segs @ [s]) = join_path segs @ ''/'' @ s"
  by (induction segs rule: join_path.induct) simp_all

lemma path_resolve_child:
  assumes "\<forall>s \<in> set segs. plain_segment s" and "plain_segment name"
  shows "path_resolve cwd [CHR ''/'' # join_path segs, name]
         = CHR ''/'' # join_path (segs @ [name])"
proof -
  have "name \<noteq> []" "hd name \<noteq> CHR ''/''"
    using assms(2) by (cases name; auto simp: plain_segment_def)+
  moreover have "segments (CHR ''/'' # join_path segs @ CHR ''/'' # name @ ''/'') = segs @ [name]"
    using assms segments_join_path[of segs] segments_join_path[of "[name]"]
    by (simp add: segments_append)
  ultimately show ?thesis
    using assms
    by (simp add: path_resolve_def normalizeString_segments normalizeString_plain)
qed


lemma drop_common_prefix:
  "drop_common xs ys = (up, down) \<Longrightarrow> \<exists>c. xs = c @ up \<and> ys = c @ down"
proof (induction xs ys rule: drop_common.induct)
  case (1 x xs y ys)
  show ?case
  proof (cases "x = y")
    case True
    with 1 obtain c where "xs = c @ up" "ys = c @ down" by auto
    with True have "x # xs = (x # c) @ up \<and> y # ys = (x # c) @ down" by simp
    then show ?thesis by blast
  next
    case False
    with 1 show ?thesis by auto
  qed
qed auto

lemma segments_absolute:
  "\<forall>s \<in> set segs. plain_segment s \<Longrightarrow> segments (CHR ''/'' # join_path segs) = segs"
  by (simp add: segments_join_path)

lemma join_path_head:
  "segs \<noteq> [] \<Longrightarrow> \<forall>s \<in> set segs. s \<noteq> [] \<and> CHR ''/'' \<notin> set s
   \<Longrightarrow> join_path segs \<noteq> [] \<and> hd (join_path segs) \<noteq> CHR ''/''"
  by (induction segs rule: join_path.induct) (auto simp: hd_append intro: hd_in_set dest: hd_in_set)

lemma segments_join_path_relative:
  assumes "\<forall>s \<in> set segs. s \<noteq> [] \<and> CHR ''/'' \<notin> set s"
  shows "segments (join_path segs) = segs"
proof (cases "segs = []")
  case True
  then show ?thesis by simp
next
  case False
  then have "split_path (join_path segs) = segs"
    using assms by (intro split_join_path) auto
  moreover have "filter (\<lambda>s. s \<noteq> []) segs = segs"
    using assms by (auto simp: filter_id_conv)
  ultimately show ?thesis
    by (simp add: segments_def)
qed

lemma resolved_segments_relative:
  assumes "rel \<noteq> []" and "hd rel \<noteq> CHR ''/''"
  shows "resolved_segments cwd [m, rel]
         = normalizeString False (resolved_segments cwd [m]) (segments rel)"
  using assms resolve_loop_segments[of "[m, cwd]" "rel @ ''/''"]
  by (simp add: resolved_segments_def normalizeString_append)

lemma path_resolve_skips_empty: "path_resolve cwd [m, []] = path_resolve cwd [m]"
  by (simp add: path_resolve_def)

lemma path_relative_resolves_back:
  assumes cwd: "is_absolute cwd" and T: "\<forall>s \<in> set T. plain_segment s"
  shows "path_resolve cwd [m, path_relative cwd m (CHR ''/'' # join_path T)]
         = CHR ''/'' # join_path T"
proof -
  let ?t = "CHR ''/'' # join_path T"
  let ?F = "resolved_segments cwd [m]"
  have tres: "path_resolve cwd [?t] = ?t"
    using T by (rule path_resolve_one)
  have mres: "path_resolve cwd [m] = CHR ''/'' # join_path ?F"
    using cwd by (rule path_resolve_absolute)
  have F: "\<forall>s \<in> set ?F. plain_segment s"
    by (rule resolved_segments_plain)
  show ?thesis
  proof (cases "m = ?t \<or> path_resolve cwd [m] = ?t")
    case True
    then have "path_relative cwd m ?t = []"
      by (auto simp: path_relative_def tres Let_def)
    with True tres show ?thesis
      by (auto simp: path_resolve_skips_empty)
  next
    case False
    obtain up down where d: "drop_common ?F T = (up, down)"
      by (cases "drop_common ?F T")
    then obtain c where c: "?F = c @ up" "T = c @ down"
      by (auto dest: drop_common_prefix)
    let ?segs = "replicate (length up) ''..'' @ down"
    let ?rel = "join_path ?segs"
    have rel: "path_relative cwd m ?t = ?rel"
      using False d by (simp add: path_relative_def tres mres Let_def segments_join_path F T)
    have "up \<noteq> [] \<or> down \<noteq> []"
      using False c mres by auto
    then have ne: "?segs \<noteq> []"
      by auto
    have "set down \<subseteq> set T"
      using c(2) by simp
    with T have "\<forall>s \<in> set down. plain_segment s"
      by blast
    then have "\<forall>s \<in> set down. s \<noteq> [] \<and> CHR ''/'' \<notin> set s"
      by (simp add: plain_segment_def)
    moreover have "\<forall>s \<in> set (replicate (length up) ''..''). s \<noteq> [] \<and> CHR ''/'' \<notin> set s"
      by simp
    ultimately have ok: "\<forall>s \<in> set ?segs. s \<noteq> [] \<and> CHR ''/'' \<notin> set s"
      unfolding set_append by blast
    have h: "?rel \<noteq> []" "hd ?rel \<noteq> CHR ''/''"
      using join_path_head[OF ne ok] by simp_all
    have "resolved_segments cwd [m, ?rel] = normalizeString False ?F ?segs"
      using resolved_segments_relative[OF h] segments_join_path_relative[OF ok] by simp
    also have "\<dots> = normalizeString False (normalizeString False ?F (replicate (length up) ''..'')) down"
      by (simp add: normalizeString_append)
    also have "normalizeString False ?F (replicate (length up) ''..'') = c"
      using normalizeString_up[of ?F "length up"] F c by simp
    also have "normalizeString False c down = c @ down"
      using \<open>\<forall>s \<in> set down. plain_segment s\<close> by (rule normalizeString_plain)
    finally have "resolved_segments cwd [m, ?rel] = T"
      using c by simp
    then show ?thesis
      using path_resolve_absolute[OF cwd, of "[m, ?rel]"] rel by simp
  qed
qed

lemma is_absolute_path_resolve: "is_absolute cwd \<Longrightarrow> is_absolute (path_resolve cwd paths)"
  by (simp add: path_resolve_absolute is_absolute_def)

lemma resolved_segments_child:
  assumes "is_absolute cwd" and "plain_segment name"
  shows "resolved_segments cwd [cwd, ''./'' @ name] = resolved_segments cwd [cwd, ''.''] @ [name]"
proof -
  have c: "cwd \<noteq> []" "hd cwd = CHR ''/''"
    using assms(1) by (cases cwd; simp add: is_absolute_def)+
  have n: "segments name = [name]"
    using assms(2) segments_join_path[of "[name]"] by simp
  have d: "segments ''.'' = [''.'']"
    by (simp add: segments_def)
  have "segments (cwd @ CHR ''/'' # ''.'' @ CHR ''/'' # name @ ''/'')
        = segments cwd @ [''.'', name]"
    unfolding segments_append segments_trailing n d by simp
  moreover have "segments (cwd @ CHR ''/'' # ''.'' @ ''/'') = segments cwd @ [''.'']"
    unfolding segments_append segments_trailing d by simp
  ultimately show ?thesis
    using c assms(2)
    by (simp add: resolved_segments_def normalizeString_append plain_segment_def)
qed

lemma child_path:
  assumes "\<forall>s \<in> set segs. plain_segment s"
  shows "CHR ''/'' # join_path (segs @ [name])
   = (if CHR ''/'' # join_path segs = ''/'' then CHR ''/'' # name
      else (CHR ''/'' # join_path segs) @ ''/'' @ name)"
proof (cases "segs = []")
  case True
  then show ?thesis by simp
next
  case False
  then have "join_path segs \<noteq> []"
    using assms join_path_head[of segs] by (auto simp: plain_segment_def)
  with False show ?thesis
    by (simp add: join_path_snoc)
qed

lemma absPath_actor:
  assumes "is_absolute (process_cwd w)"
  shows "absPath w ''./.actor''
         = (if absPath w ''.'' = ''/'' then ''/.actor'' else absPath w ''.'' @ ''/.actor'')"
proof -
  have "plain_segment ''.actor''"
    by (simp add: plain_segment_def)
  from resolved_segments_child[OF assms this] show ?thesis
    using child_path[OF resolved_segments_plain, of "process_cwd w" "[process_cwd w, ''.'']" "''.actor''"]
    by (simp add: absPath_def path_resolve_absolute[OF assms])
qed

lemma absOutFilePath_child:
  assumes "is_absolute (process_cwd w)"
  shows "absOutFilePath w a
         = (if absOutDirPath w a = ''/'' then ''/actorspec.json''
            else absOutDirPath w a @ ''/actorspec.json'')"
proof -
  let ?S = "resolved_segments (process_cwd w) [process_cwd w, outDirUsed w a]"
  have d: "absOutDirPath w a = CHR ''/'' # join_path ?S"
    by (simp add: absOutDirPath_def absPath_def path_resolve_absolute[OF assms])
  have "plain_segment ''actorspec.json''"
    by (simp add: plain_segment_def)
  then have "absOutFilePath w a = CHR ''/'' # join_path (?S @ [''actorspec.json''])"
    unfolding absOutFilePath_def d
    by (intro path_resolve_child resolved_segments_plain)
  then show ?thesis
    using child_path[OF resolved_segments_plain, of "process_cwd w" "[process_cwd w, outDirUsed w a]" "''actorspec.json''"] d by simp
qed

lemma generate_fs_events:
  "e \<in> set (fst (generate w a)) \<Longrightarrow> is_fs_event e
   \<Longrightarrow> e = FsMkdir (absOutDirPath w a) \<or> (\<exists>content. e = FsWriteFile (absOutFilePath w a) content)"
proof -
  assume "e \<in> set (fst (generate w a))" "is_fs_event e"
  then have "e \<in> set (filter is_fs_event (fst (generate w a)))"
    by simp
  then show ?thesis
    by (auto simp: generate_fs resolve_fs validate_fs write_fs
        split: sum.splits if_splits option.splits)
qed

section \<open>Parsing what was serialized\<close>

lemma all_ws_simps [simp]:
  "all_ws []" "all_ws (c # w) \<longleftrightarrow> is_ws c \<and> all_ws w" "all_ws (u @ w) \<longleftrightarrow> all_ws u \<and> all_ws w"
  by (auto simp: all_ws_def)

lemma all_ws_indent [simp]: "all_ws (indent l)"
  by (simp add: all_ws_def indent_def is_ws_def)

lemma is_ws_newline [simp]: "is_ws (CHR 0x0A)" and is_ws_space [simp]: "is_ws CHR '' ''"
  by (simp_all add: is_ws_def)




subsection \<open>Numbers\<close>




lemma digits_nonempty [simp]: "digits n \<noteq> []"
  by (subst digits.simps) simp











subsection \<open>Strings\<close>









lemma QuoteJSONString_parse:
  "QuoteJSONString s @ rest = CHR 0x22 # concat (map quote_char s) @ CHR 0x22 # rest"
  by (simp add: QuoteJSONString_def)

subsection \<open>One step of the parser\<close>















subsection \<open>The text of a value\<close>












subsection \<open>Parsing the text of a value gives the value\<close>











lemma member_text:
  "(QuoteJSONString k @ '': '' @ t) @ rest
   = CHR 0x22 # (concat (map quote_char k) @ CHR 0x22 # CHR '':'' # ('' '' @ t @ rest))"
  by (simp add: QuoteJSONString_def)









section \<open>The claims\<close>

subsection \<open>C1\<close>

text \<open>
  C1. A config module whose default export is a factory function, synchronous or
  asynchronous, that gives an object with a truthy \<open>actorspecVersion\<close> should be
  written like the object itself. The code does not do that: line 50 tests the type of
  the export in place of the type of what it resolved to, so for every exported
  function the run ends without being fulfilled and without a call to the file system.
\<close>

theorem function_export_is_never_written:
  assumes "require w (resolvePath w (config a)) = Inr exports"
    and "get_property exports ''default'' = Inr (JFun src c)"
  shows "snd (generate w a) \<noteq> Fulfilled \<and> fs_events (generate w a) = []"
  using assms
  by (cases c) (simp_all add: generate_result resolve_result fs_events_def generate_fs resolve_fs)

text \<open>
  C1 at an asynchronous factory that resolves to the demo object: the run is rejected
  and nothing is written, while the same object exported as it is gets written.
\<close>

theorem function_export_is_never_written_witness:
  "generate (example_world (exporting (JFun ''async () => config'' (Resolves demo_config))) False)
     (example_args None)
   = ([], Rejected (UnresolvedConfigError
        ''Failed to import actorspec from path /proj/actorspec.js, the import did not resolve to object, got async () => config instead''))
   \<and> generate (example_world (exporting demo_config) False) (example_args None)
   = ([FsMkdir ''/proj'', FsWriteFile ''/proj/actorspec.json'' demo_json], Fulfilled)"
proof -
  let ?f = "JFun ''async () => config'' (Resolves demo_config)"
  let ?w = "example_world (exporting ?f) False"
  have l: "require ?w (resolvePath ?w (config (example_args None))) = Inr (JObj [(''default'', ?f)])"
    by code_simp
  have d: "get_property (JObj [(''default'', ?f)]) ''default'' = Inr ?f"
    by simp
  have e: ?thesis
    by code_simp
  from function_export_is_never_written [OF l d] e show ?thesis
    by simp
qed

subsection \<open>C2\<close>

text \<open>
  C2. After the export is called, if it is a function, \<open>UnresolvedConfigError\<close> should
  be raised exactly when the value so produced is falsy or not an object. The code
  raises it also when an exported function produced a truthy object, since it tests
  \<open>typeof configOrInit\<close>, the export.
\<close>

theorem truthy_object_from_factory_is_unresolved:
  assumes "require w (resolvePath w (config a)) = Inr exports"
    and "get_property exports ''default'' = Inr (JFun src c)"
    and "await_call (JFun src c) = Value r"
    and "truthy r" and "typeof r = ''object''"
  shows "snd (generate w a)
         = Rejected (UnresolvedConfigError (unresolved_message (absPath w (config a)) (JFun src c)))"
  using assms by (simp add: generate_result resolve_result)

text \<open>C2 at a synchronous factory that returns the demo object.\<close>

theorem truthy_object_from_factory_is_unresolved_witness:
  "await_call (JFun ''() => config'' (Returns demo_config)) = Value demo_config
   \<and> truthy demo_config \<and> typeof demo_config = ''object''
   \<and> snd (generate (example_world (exporting (JFun ''() => config'' (Returns demo_config))) False)
        (example_args None))
     = Rejected (UnresolvedConfigError
        ''Failed to import actorspec from path /proj/actorspec.js, the import did not resolve to object, got () => config instead'')"
proof -
  let ?f = "JFun ''() => config'' (Returns demo_config)"
  let ?w = "example_world (exporting ?f) False"
  have l: "require ?w (resolvePath ?w (config (example_args None))) = Inr (JObj [(''default'', ?f)])"
    by code_simp
  have d: "get_property (JObj [(''default'', ?f)]) ''default'' = Inr ?f"
    by simp
  have c: "await_call ?f = Value demo_config"
    by simp
  have t: "truthy demo_config" and o: "typeof demo_config = ''object''"
    by (simp_all add: demo_config_def)
  have m: "unresolved_message (absPath ?w (config (example_args None))) ?f
    = ''Failed to import actorspec from path /proj/actorspec.js, the import did not resolve to object, got () => config instead''"
    by code_simp
  from truthy_object_from_factory_is_unresolved [OF l d c t o] c t o m show ?thesis
    by simp
qed

subsection \<open>C3\<close>




subsection \<open>C4\<close>




subsection \<open>C5\<close>

text \<open>
  C5. A resolved config object without a truthy \<open>actorspecVersion\<close> should end the run
  with \<open>MissingVersionError\<close>. The code does so for an object that is exported as it is
  (\<open>exported_object_without_version\<close>), but an object that an exported function
  produced never reaches the check of line 54: the run has ended at line 51 with
  \<open>UnresolvedConfigError\<close>.
\<close>

theorem factory_object_without_version_is_unresolved:
  assumes "require w (resolvePath w (config a)) = Inr exports"
    and "get_property exports ''default'' = Inr (JFun src c)"
    and "await_call (JFun src c) = Value (JObj kvs)"
    and "\<not> truthy (case map_of kvs ''actorspecVersion'' of None \<Rightarrow> JUndefined | Some x \<Rightarrow> x)"
  shows "snd (generate w a)
         = Rejected (UnresolvedConfigError (unresolved_message (absPath w (config a)) (JFun src c)))
       \<and> snd (generate w a)
         \<noteq> Rejected (MissingVersionError (missing_version_message (absPath w (config a))))"
  using assms by (simp add: generate_result resolve_result)

text \<open>
  C5 at a factory that returns \<open>{ actorspecVersion: 0 }\<close>, and at the same object
  exported as it is.
\<close>

theorem factory_object_without_version_is_unresolved_witness:
  "snd (generate
     (example_world (exporting (JFun ''() => ({ actorspecVersion: 0 })''
        (Returns (JObj [(''actorspecVersion'', JNum (Finite 0))])))) False)
     (example_args None))
   = Rejected (UnresolvedConfigError
       ''Failed to import actorspec from path /proj/actorspec.js, the import did not resolve to object, got () => ({ actorspecVersion: 0 }) instead'')
   \<and> snd (generate
     (example_world (exporting (JObj [(''actorspecVersion'', JNum (Finite 0))])) False)
     (example_args None))
   = Rejected (MissingVersionError
       ''Invalid actorspec object imported from path /proj/actorspec.js, config.actorspecVersion is missing'')"
proof -
  let ?kvs = "[(''actorspecVersion'', JNum (Finite 0))]"
  let ?f = "JFun ''() => ({ actorspecVersion: 0 })'' (Returns (JObj ?kvs))"
  let ?w = "example_world (exporting ?f) False"
  have l: "require ?w (resolvePath ?w (config (example_args None))) = Inr (JObj [(''default'', ?f)])"
    by code_simp
  have d: "get_property (JObj [(''default'', ?f)]) ''default'' = Inr ?f"
    by simp
  have c: "await_call ?f = Value (JObj ?kvs)"
    by simp
  have v: "\<not> truthy (case map_of ?kvs ''actorspecVersion'' of None \<Rightarrow> JUndefined | Some x \<Rightarrow> x)"
    by simp
  have e: ?thesis
    by code_simp
  from factory_object_without_version_is_unresolved [OF l d c v] e show ?thesis
    by simp
qed

subsection \<open>C6\<close>

text \<open>
  C6, as stated: an \<open>outDir\<close> that the caller supplies is always used, also when
  \<open>.actor\<close> exists. It is not used when it is the empty string: in a project with a
  directory \<open>.actor\<close> the file goes to \<open>/proj/.actor\<close>, while the empty string resolves
  to \<open>/proj\<close>.
\<close>

theorem empty_outDir_does_not_take_precedence:
  "fs_events (generate (example_world (exporting demo_config) True) (example_args (Some '''')))
     = [FsMkdir ''/proj/.actor'', FsWriteFile ''/proj/.actor/actorspec.json'' demo_json]
   \<and> absPath (example_world (exporting demo_config) True) '''' = ''/proj''"
  by code_simp

text \<open>
  C6, amended: a non-empty \<open>outDir\<close> is always the directory used, whether or not
  \<open>.actor\<close> exists; with no \<open>outDir\<close>, or an empty one, it is \<open>.actor\<close> under the working
  directory when that exists, and the working directory otherwise. Every directory
  that a run creates and every file that it writes is that directory and the file
  \<open>actorspec.json\<close> directly inside it.
\<close>

theorem output_path_resolution:
  "(\<forall>d. outDir a = Some d \<and> d \<noteq> [] \<longrightarrow> absOutDirPath w a = absPath w d)
   \<and> ((outDir a = None \<or> outDir a = Some []) \<and> existsSync w (absPath w ''./.actor'')
        \<longrightarrow> absOutDirPath w a = absPath w ''./.actor'')
   \<and> ((outDir a = None \<or> outDir a = Some []) \<and> \<not> existsSync w (absPath w ''./.actor'')
        \<longrightarrow> absOutDirPath w a = absPath w ''.'')
   \<and> (\<forall>p. FsMkdir p \<in> set (fst (generate w a)) \<longrightarrow> p = absOutDirPath w a)
   \<and> (\<forall>p content. FsWriteFile p content \<in> set (fst (generate w a)) \<longrightarrow> p = absOutFilePath w a)
   \<and> (is_absolute (process_cwd w) \<longrightarrow>
        absOutFilePath w a
          = (if absOutDirPath w a = ''/'' then ''/actorspec.json''
             else absOutDirPath w a @ ''/actorspec.json'')
        \<and> absPath w ''./.actor''
          = (if absPath w ''.'' = ''/'' then ''/.actor'' else absPath w ''.'' @ ''/.actor''))"
proof (intro conjI allI impI)
  fix p assume "FsMkdir p \<in> set (fst (generate w a))"
  from generate_fs_events[OF this] show "p = absOutDirPath w a" by simp
next
  fix p content assume "FsWriteFile p content \<in> set (fst (generate w a))"
  from generate_fs_events[OF this] show "p = absOutFilePath w a" by simp
qed (auto simp: absOutDirPath_def outDirUsed_def absOutFilePath_child absPath_actor)

text \<open>
  C6, amended, in a project with a directory \<open>.actor\<close>: with \<open>outDir\<close> set to \<open>out\<close> and
  with no \<open>outDir\<close>; and in a project without \<open>.actor\<close>.
\<close>

theorem output_path_resolution_witness:
  "fs_events (generate (example_world (exporting demo_config) True) (example_args (Some ''out'')))
     = [FsMkdir ''/proj/out'', FsWriteFile ''/proj/out/actorspec.json'' demo_json]
   \<and> fs_events (generate (example_world (exporting demo_config) True) (example_args None))
     = [FsMkdir ''/proj/.actor'', FsWriteFile ''/proj/.actor/actorspec.json'' demo_json]
   \<and> fs_events (generate (example_world (exporting demo_config) False) (example_args None))
     = [FsMkdir ''/proj'', FsWriteFile ''/proj/actorspec.json'' demo_json]
   \<and> is_absolute (process_cwd (example_world (exporting demo_config) True))
   \<and> absOutDirPath (example_world (exporting demo_config) True) (example_args (Some ''out''))
     = absPath (example_world (exporting demo_config) True) ''out''"
proof -
  let ?w = "example_world (exporting demo_config) True"
  have o: "outDir (example_args (Some ''out'')) = Some ''out'' \<and> ''out'' \<noteq> []"
    by (simp add: example_args_def)
  have c: "is_absolute (process_cwd ?w)"
    by (simp add: example_world_def is_absolute_def)
  have e: "fs_events (generate ?w (example_args (Some ''out'')))
     = [FsMkdir ''/proj/out'', FsWriteFile ''/proj/out/actorspec.json'' demo_json]
   \<and> fs_events (generate ?w (example_args None))
     = [FsMkdir ''/proj/.actor'', FsWriteFile ''/proj/.actor/actorspec.json'' demo_json]
   \<and> fs_events (generate (example_world (exporting demo_config) False) (example_args None))
     = [FsMkdir ''/proj'', FsWriteFile ''/proj/actorspec.json'' demo_json]"
    by code_simp
  from output_path_resolution [of "example_args (Some ''out'')" ?w] o c e show ?thesis
    by simp
qed

subsection \<open>C7\<close>




subsection \<open>C8\<close>

text \<open>
  C8. \<open>absPath\<close> is \<open>path.resolve\<close> of the working directory and the path;
  \<open>resolvePath\<close> is that absolute path relative to the directory of the module, so
  that resolving it from there leads back to the absolute path; and neither looks at
  the file system or the loader: replacing them changes no result.
\<close>

theorem path_helpers:
  "absPath w p = path_resolve (process_cwd w) [process_cwd w, p]
   \<and> resolvePath w p = path_relative (process_cwd w) (module_path w) (absPath w p)
   \<and> (is_absolute (process_cwd w) \<longrightarrow>
        is_absolute (absPath w p)
        \<and> path_resolve (process_cwd w) [module_path w, resolvePath w p] = absPath w p)
   \<and> absPath (w\<lparr>require := r, existsSync := e, mkdir := m, writeFile := f\<rparr>) p = absPath w p
   \<and> resolvePath (w\<lparr>require := r, existsSync := e, mkdir := m, writeFile := f\<rparr>) p = resolvePath w p"
proof (intro conjI impI)
  assume c: "is_absolute (process_cwd w)"
  then show "is_absolute (absPath w p)"
    by (simp add: absPath_def is_absolute_path_resolve)
  have "absPath w p = CHR ''/'' # join_path (resolved_segments (process_cwd w) [process_cwd w, p])"
    by (simp add: absPath_def path_resolve_absolute[OF c])
  then show "path_resolve (process_cwd w) [module_path w, resolvePath w p] = absPath w p"
    using path_relative_resolves_back[OF c resolved_segments_plain]
    by (simp add: resolvePath_def)
qed (simp_all add: absPath_def resolvePath_def)

text \<open>
  C8 at the demo project, for the config file and for a path that does not exist.
\<close>

theorem path_helpers_witness:
  "is_absolute (process_cwd (example_world (exporting demo_config) False))
   \<and> absPath (example_world (exporting demo_config) False) ''actorspec.js'' = ''/proj/actorspec.js''
   \<and> resolvePath (example_world (exporting demo_config) False) ''actorspec.js''
     = ''../../../../../proj/actorspec.js''
   \<and> path_resolve ''/proj'' [''/opt/actor-spec/dist/cjs/cli'', ''../../../../../proj/actorspec.js'']
     = ''/proj/actorspec.js''
   \<and> absPath (example_world (exporting demo_config) False) ''no/such/../file.js''
     = ''/proj/no/file.js''"
proof -
  let ?w = "example_world (exporting demo_config) False"
  have c: "is_absolute (process_cwd ?w)"
    by (simp add: example_world_def is_absolute_def)
  have v: "process_cwd ?w = ''/proj''" "module_path ?w = ''/opt/actor-spec/dist/cjs/cli''"
    by (simp_all add: example_world_def)
  have e: "absPath ?w ''actorspec.js'' = ''/proj/actorspec.js''"
    "resolvePath ?w ''actorspec.js'' = ''../../../../../proj/actorspec.js''"
    "absPath ?w ''no/such/../file.js'' = ''/proj/no/file.js''"
    by code_simp+
  have "path_resolve (process_cwd ?w) [module_path ?w, resolvePath ?w ''actorspec.js'']
        = absPath ?w ''actorspec.js''"
    using path_helpers [of ?w "''actorspec.js''"] c by blast
  then have "path_resolve ''/proj'' [''/opt/actor-spec/dist/cjs/cli'', ''../../../../../proj/actorspec.js'']
     = ''/proj/actorspec.js''"
    unfolding v e .
  with c e show ?thesis
    by simp
qed

subsection \<open>C9\<close>

text \<open>
  C9. An \<open>outDir\<close> that is the empty string is treated as no \<open>outDir\<close>: the two runs are
  the same, and the directory is the one that the fallback picks.
\<close>

theorem empty_outDir_is_no_outDir:
  "generate w (a\<lparr>outDir := Some []\<rparr>) = generate w (a\<lparr>outDir := None\<rparr>)
   \<and> outDirUsed w (a\<lparr>outDir := Some []\<rparr>) =
       (if existsSync w (absPath w ''./.actor'') then ''./.actor'' else ''.'')"
  by (simp add: generate_def Let_def resolve_empty outDirUsed_def cong: sum.case_cong if_cong)

text \<open>C9 in a project with a directory \<open>.actor\<close>.\<close>

theorem empty_outDir_is_no_outDir_witness:
  "generate (example_world (exporting demo_config) True) (example_args (Some ''''))
     = generate (example_world (exporting demo_config) True) (example_args None)
   \<and> fs_events (generate (example_world (exporting demo_config) True) (example_args (Some '''')))
     = [FsMkdir ''/proj/.actor'', FsWriteFile ''/proj/.actor/actorspec.json'' demo_json]"
proof -
  let ?w = "example_world (exporting demo_config) True"
  have a: "(example_args None)\<lparr>outDir := Some []\<rparr> = example_args (Some [])"
    and b: "(example_args None)\<lparr>outDir := None\<rparr> = example_args None"
    by (simp_all add: example_args_def)
  have e: "fs_events (generate ?w (example_args (Some '''')))
     = [FsMkdir ''/proj/.actor'', FsWriteFile ''/proj/.actor/actorspec.json'' demo_json]"
    by code_simp
  from empty_outDir_is_no_outDir [of ?w "example_args None"] a b e show ?thesis
    by simp
qed

subsection \<open>C10\<close>

text \<open>
  C10. Two runs that differ only in \<open>silent\<close> end the same way, make the same calls to
  the file system and write the same content to the same path; with \<open>silent\<close> set,
  nothing is printed.
\<close>

theorem silent_only_changes_printing:
  "snd (generate w (a\<lparr>silent := s1\<rparr>)) = snd (generate w (a\<lparr>silent := s2\<rparr>))
   \<and> fs_events (generate w (a\<lparr>silent := s1\<rparr>)) = fs_events (generate w (a\<lparr>silent := s2\<rparr>))
   \<and> written_files (fst (generate w (a\<lparr>silent := s1\<rparr>)))
     = written_files (fst (generate w (a\<lparr>silent := s2\<rparr>)))
   \<and> printed (generate w (a\<lparr>silent := Some True\<rparr>)) = []"
  by (simp add: generate_silent_result generate_silent_fs generate_silent_written
      generate_silent_printed fs_events_def printed_def)

text \<open>C10 at the demo project, with \<open>silent\<close> set and not set.\<close>

theorem silent_only_changes_printing_witness:
  "written_files (fst (generate (example_world (exporting demo_config) False)
       ((example_args None)\<lparr>silent := Some True\<rparr>)))
     = [(''/proj/actorspec.json'', demo_json)]
   \<and> written_files (fst (generate (example_world (exporting demo_config) False)
       ((example_args None)\<lparr>silent := Some False\<rparr>)))
     = [(''/proj/actorspec.json'', demo_json)]
   \<and> printed (generate (example_world (exporting demo_config) False)
       ((example_args None)\<lparr>silent := Some False\<rparr>))
     = [ConsoleLog ''Importing file from /proj/actorspec.js'',
        ConsoleLog ''Actorspec found! Resolving...'',
        ConsoleLog ''Writing resolved config to file /proj/actorspec.json'',
        ConsoleLog ''Done!'']
   \<and> printed (generate (example_world (exporting demo_config) False)
       ((example_args None)\<lparr>silent := Some True\<rparr>)) = []"
proof -
  have e: ?thesis
    by code_simp
  from silent_only_changes_printing
    [where w = "example_world (exporting demo_config) False" and a = "example_args None"
      and ?s1.0 = "Some True" and ?s2.0 = "Some False"] e
  show ?thesis
    by simp
qed

end
